theory Spec2Isabelle
  imports Complex_Main "HOL-Library.AList"
begin

section \<open>Python values used by the rate service\<close>

text \<open>
  Strings are byte lists. Rates are Python floats in the source; a rate is modelled as
  the real number that a finite float stands for. Rounding and the non-finite floats
  (\<open>inf\<close>, \<open>nan\<close>, which \<open>float\<close> reads from a cell with such a text) are outside this
  development: every statement about a rate below is about a finite one.
  Times (\<open>datetime\<close>) are seconds on an integer clock.
\<close>

text \<open>\<open>str.strip()\<close> on ASCII text: the whitespace characters of Python.\<close>

definition is_space :: "char \<Rightarrow> bool" where
  "is_space c = (c \<in> set [CHR 0x20, CHR 0x09, CHR 0x0A, CHR 0x0B, CHR 0x0C, CHR 0x0D,
                            CHR 0x1C, CHR 0x1D, CHR 0x1E, CHR 0x1F])"

definition strip :: "string \<Rightarrow> string" where
  "strip s = rev (dropWhile is_space (rev (dropWhile is_space s)))"

text \<open>\<open>list.index(x)\<close>, used in the source only after \<open>x in list\<close> has been checked.\<close>

fun py_index :: "'a list \<Rightarrow> 'a \<Rightarrow> nat" where
  "py_index [] x = 0"
| "py_index (y # ys) x = (if y = x then 0 else Suc (py_index ys x))"

text \<open>\<open>str.split(sep)\<close> for a one-character separator, and \<open>str.split(sep, 1)\<close>.\<close>

fun split_on :: "char \<Rightarrow> string \<Rightarrow> string list" where
  "split_on sep [] = [[]]"
| "split_on sep (c # cs) =
     (if c = sep then [] # split_on sep cs
      else (case split_on sep cs of
              [] \<Rightarrow> [[c]]
            | w # ws \<Rightarrow> (c # w) # ws))"

definition split_once :: "char \<Rightarrow> string \<Rightarrow> string \<times> string" where
  "split_once sep s = (takeWhile (\<lambda>c. c \<noteq> sep) s, drop 1 (dropWhile (\<lambda>c. c \<noteq> sep) s))"

text \<open>
  \<open>int(s)\<close> on an ASCII string: surrounding whitespace (space, tab, line feed, vertical
  tab, form feed, carriage return; not the separators 0x1C to 0x1F that \<open>str.strip\<close>
  removes) is dropped, one sign is allowed, the digits may be grouped by single
  underscores, and there are at most 4300 digits (the default limit of the
  interpreter). Anything else raises ValueError (\<open>None\<close> here).
\<close>

definition is_int_space :: "char \<Rightarrow> bool" where
  "is_int_space c = (c \<in> set [CHR 0x20, CHR 0x09, CHR 0x0A, CHR 0x0B, CHR 0x0C, CHR 0x0D])"

definition int_strip :: "string \<Rightarrow> string" where
  "int_strip s = rev (dropWhile is_int_space (rev (dropWhile is_int_space s)))"

definition is_digit :: "char \<Rightarrow> bool" where
  "is_digit c = (c \<in> set ''0123456789'')"

definition digit_val :: "char \<Rightarrow> nat" where
  "digit_val c = py_index ''0123456789'' c"

definition digits_val :: "string \<Rightarrow> nat" where
  "digits_val ds = foldl (\<lambda>n c. 10 * n + digit_val c) 0 ds"

fun int_body :: "string \<Rightarrow> bool" where
  "int_body [] = False"
| "int_body [c] = is_digit c"
| "int_body (c # d # cs) =
     (is_digit c \<and> (if d = CHR ''_'' then int_body cs else int_body (d # cs)))"

definition py_int :: "string \<Rightarrow> int option" where
  "py_int s =
     (let t = int_strip s;
          (neg, body) = (case t of
                           c # cs \<Rightarrow> if c = CHR ''-'' then (True, cs)
                                     else if c = CHR ''+'' then (False, cs)
                                     else (False, t)
                         | [] \<Rightarrow> (False, t))
      in if int_body body \<and> length (filter is_digit body) \<le> 4300
         then (let n = int (digits_val (filter is_digit body))
               in Some (if neg then - n else n))
         else None)"

text \<open>
  \<open>float(s)\<close> is a parameter of the parser below (a function from the cell text to the
  number, \<open>None\<close> where Python raises ValueError). \<open>decimal_float\<close> is not \<open>float\<close>: it
  is the instance used on the sample documents, and agrees with \<open>float\<close> on the plain
  decimal literals found there (\<open>727.67\<close>, \<open>-5\<close>, \<open>0\<close>). It returns \<open>None\<close> on every
  other text, also on the exponents, digit groups, \<open>inf\<close> and \<open>nan\<close> that \<open>float\<close> reads.
\<close>

type_synonym float_of = "string \<Rightarrow> real option"

definition decimal_float :: float_of where
  "decimal_float s =
     (let t = strip s;
          (neg, body) = (case t of
                           c # cs \<Rightarrow> if c = CHR ''-'' then (True, cs)
                                     else if c = CHR ''+'' then (False, cs)
                                     else (False, t)
                         | [] \<Rightarrow> (False, t));
          ip = takeWhile (\<lambda>c. c \<noteq> CHR ''.'') body;
          fp = drop 1 (dropWhile (\<lambda>c. c \<noteq> CHR ''.'') body)
      in if (ip \<noteq> [] \<or> fp \<noteq> []) \<and> list_all is_digit ip \<and> list_all is_digit fp
         then (let v = real (digits_val ip) + real (digits_val fp) / 10 ^ length fp
               in Some (if neg then - v else v))
         else None)"

text \<open>
  Float true division \<open>a / b\<close>: Python raises ZeroDivisionError on a zero divisor
  (\<open>None\<close> here); it does not return an infinity.
\<close>

definition py_truediv :: "real \<Rightarrow> real \<Rightarrow> real option" where
  "py_truediv a b = (if b = 0 then None else Some (a / b))"


section \<open>Settings (app/core/config.py)\<close>

text \<open>
  The environment after \<open>load_dotenv\<close> is a map from variable names to strings.
  \<open>Settings.__init__\<close> reads it field by field; the two \<open>int(...)\<close> conversions before
  the cache setting and the one of the cache setting itself are its only raising steps.
  The string and boolean fields that the rate service never reads (bot token, webhook,
  host, debug, time zone, redaction) cannot raise and are left out of the record.
\<close>

datatype config_error = TypeError | ValueError

record settings =
  APP_PORT :: int
  APP_WORKERS :: int
  CACHE_TIMEOUT :: int
  BOC_URL :: "string option"
  SUPPORTED_CURRENCIES :: "string list"
  CURRENCY_NAMES :: "(string \<times> string) list"

definition parse_list :: "string \<Rightarrow> string list" where
  "parse_list v = (if v = [] then [] else split_on CHR '','' v)"

definition parse_dict :: "string \<Rightarrow> (string \<times> string) list" where
  "parse_dict v =
     (if v = [] then []
      else foldl (\<lambda>result item.
                    if CHR '':'' \<in> set item
                    then (case split_once CHR '':'' item of (key, val) \<Rightarrow> AList.update key val result)
                    else result)
                 [] (split_on CHR '','' v))"

definition env_get :: "(string \<rightharpoonup> string) \<Rightarrow> string \<Rightarrow> string \<Rightarrow> string" where
  "env_get env k d = (case env k of None \<Rightarrow> d | Some v \<Rightarrow> v)"

definition Settings_init :: "(string \<rightharpoonup> string) \<Rightarrow> config_error + settings" where
  "Settings_init env =
     (case env ''APP_PORT'' of
        None \<Rightarrow> Inl TypeError
      | Some port_text \<Rightarrow>
     (case py_int port_text of
        None \<Rightarrow> Inl ValueError
      | Some port \<Rightarrow>
     (case py_int (env_get env ''APP_WORKERS'' ''4'') of
        None \<Rightarrow> Inl ValueError
      | Some workers \<Rightarrow>
     (case py_int (let t = env_get env ''CACHE_TIMEOUT'' ''5'' in if t = [] then ''5'' else t) of
        None \<Rightarrow> Inl ValueError
      | Some timeout \<Rightarrow>
          Inr \<lparr> APP_PORT = port,
                APP_WORKERS = workers,
                CACHE_TIMEOUT = timeout,
                BOC_URL = env ''BOC_URL'',
                SUPPORTED_CURRENCIES = parse_list (env_get env ''SUPPORTED_CURRENCIES'' []),
                CURRENCY_NAMES = parse_dict (env_get env ''CURRENCY_NAMES'' []) \<rparr>))))"

text \<open>
  \<open>getattr(settings, name, default)\<close> followed by \<open>int(...)\<close>, on the integer attributes
  that \<open>Settings.__init__\<close> sets. Any other name yields the default.
\<close>

definition getattr_int :: "settings \<Rightarrow> string \<Rightarrow> int \<Rightarrow> int" where
  "getattr_int s name d =
     (if name = ''APP_PORT'' then APP_PORT s
      else if name = ''APP_WORKERS'' then APP_WORKERS s
      else if name = ''CACHE_TIMEOUT'' then CACHE_TIMEOUT s
      else d)"

text \<open>The module constant \<open>CACHE_TTL\<close> of the rate service, in seconds.\<close>

definition CACHE_TTL :: "settings \<Rightarrow> int" where
  "CACHE_TTL s = getattr_int s ''CACHE_TTL_MINUTES'' 10 * 60"


section \<open>The rate parser (app/services/exchange_rate.py)\<close>

text \<open>
  The document is the parsed markup as the parser queries it: the tables of the page in
  document order (\<open>soup.find_all('table')\<close>), each with its \<open>bgcolor\<close> attribute and its
  rows (\<open>find_all('tr')\<close>), each row with the texts of its header cells
  (\<open>find_all('th')\<close>) and of its data cells (\<open>find_all('td')\<close>).
\<close>

datatype html_row = Row (ths: "string list") (tds: "string list")

datatype html_table = Table (bgcolor: "string option") (trs: "html_row list")

type_synonym soup = "html_table list"

text \<open>
  The parsed table \<open>{"currencies": ..., "last_updated": ...}\<close>. The dictionary of rates
  is an association list in insertion order; \<open>d[k] = v\<close> is \<open>AList.update\<close>.
\<close>

record rate_data =
  currencies :: "(string \<times> real) list"
  last_updated :: "string option"

text \<open>The loop over the tables: the first one whose \<open>bgcolor\<close> is \<open>#EAEAEA\<close>.\<close>

fun find_table :: "soup \<Rightarrow> html_table option" where
  "find_table [] = None"
| "find_table (t # ts) = (if bgcolor t = Some ''#EAEAEA'' then Some t else find_table ts)"

text \<open>\<open>headers.index(h) if h in headers else -1\<close>\<close>

definition header_index :: "string list \<Rightarrow> string \<Rightarrow> int" where
  "header_index headers h = (if h \<in> set headers then int (py_index headers h) else - 1)"

text \<open>\<open>{v: k for k, v in currency_names.items()}\<close>\<close>

definition reverse_map :: "(string \<times> string) list \<Rightarrow> (string \<times> string) list" where
  "reverse_map currency_names = foldl (\<lambda>m kv. AList.update (snd kv) (fst kv) m) [] currency_names"

text \<open>
  One pass of the loop over the data rows. The state is the dictionary built so far and
  \<open>pub_time\<close>.
\<close>

definition process_row ::
  "float_of \<Rightarrow> (string \<times> string) list \<Rightarrow> int \<Rightarrow> int \<Rightarrow> int \<Rightarrow>
   (string \<times> real) list \<times> string option \<Rightarrow> html_row \<Rightarrow> (string \<times> real) list \<times> string option" where
  "process_row float_of reverse_currency_map currency_idx cash_selling_idx time_idx st row =
     (let cells = tds row; cur = fst st; pub_time = snd st in
      if int (length cells) \<le> max currency_idx cash_selling_idx then st
      else
        let currency_name = strip (cells ! nat currency_idx) in
        if currency_name = [] then st
        else
          let pub_time' = (if pub_time = None \<and> int (length cells) > time_idx
                           then Some (strip (cells ! nat time_idx)) else pub_time);
              rate_text = strip (cells ! nat cash_selling_idx)
          in if rate_text \<noteq> []
             then (case float_of rate_text of
                     Some cash_selling_rate \<Rightarrow>
                       (AList.update currency_name cash_selling_rate
                          (case map_of reverse_currency_map currency_name of
                             Some currency_code \<Rightarrow> AList.update currency_code cash_selling_rate cur
                           | None \<Rightarrow> cur),
                        pub_time')
                   | None \<Rightarrow> (cur, pub_time'))
             else (cur, pub_time'))"

text \<open>
  \<open>_parse_exchange_rate_data\<close>. The empty dictionary \<open>{}\<close> that the source returns when
  the table, its rows or a required column is missing is \<open>None\<close>. The
  \<open>currency_names\<close> argument is \<open>settings.CURRENCY_NAMES\<close>.
\<close>

definition parse_exchange_rate_data ::
  "float_of \<Rightarrow> (string \<times> string) list \<Rightarrow> soup \<Rightarrow> rate_data option" where
  "parse_exchange_rate_data float_of currency_names soup =
     (let reverse_currency_map = reverse_map currency_names in
      case find_table soup of
        None \<Rightarrow> None
      | Some table \<Rightarrow>
          (case trs table of
             [] \<Rightarrow> None
           | row0 # data_rows \<Rightarrow>
               let headers = map strip (ths row0);
                   currency_idx = header_index headers ''Currency Name'';
                   cash_selling_idx = header_index headers ''Cash Selling Rate'';
                   time_idx = header_index headers ''Pub Time''
               in if currency_idx = - 1 \<or> cash_selling_idx = - 1 \<or> time_idx = - 1 then None
                  else
                    let st = foldl (process_row float_of reverse_currency_map
                                      currency_idx cash_selling_idx time_idx)
                                   ([], None) data_rows
                    in Some \<lparr> currencies = fst st, last_updated = snd st \<rparr>))"


section \<open>Fetching behind the cache\<close>

text \<open>
  What the HTTP request does is an input of the model: it times out, answers with an
  error status, fails on the network, fails in some other way, or delivers a document.
\<close>

datatype http_outcome = Timeout | HTTPStatus | RequestFailed | OtherFailure | Response soup

text \<open>The four \<open>raise Exception(...)\<close> of the fetch, by their message.\<close>

datatype fetch_error = Timed_out | HTTP_error | Network_error | Fetch_or_parse_error

text \<open>The returned triple \<open>(exchange_data, is_cached, next_update)\<close>.\<close>

type_synonym fetch_result = "rate_data \<times> bool option \<times> int option"

text \<open>The body of \<open>fetch_and_parse_rate_data\<close>, without its decorator.\<close>

definition fetch_body ::
  "float_of \<Rightarrow> (string \<times> string) list \<Rightarrow> http_outcome \<Rightarrow> fetch_error + fetch_result" where
  "fetch_body float_of currency_names outcome =
     (case outcome of
        Timeout \<Rightarrow> Inl Timed_out
      | HTTPStatus \<Rightarrow> Inl HTTP_error
      | RequestFailed \<Rightarrow> Inl Network_error
      | OtherFailure \<Rightarrow> Inl Fetch_or_parse_error
      | Response soup \<Rightarrow>
          (case parse_exchange_rate_data float_of currency_names soup of
             None \<Rightarrow> Inl Fetch_or_parse_error
           | Some exchange_data \<Rightarrow> Inr (exchange_data, None, None)))"

text \<open>
  The decorator \<open>@cached(ttl=CACHE_TTL, cache=SimpleMemoryCache)\<close> of the aiocache
  library: the key is built from the call's arguments (here the URL), a stored value is
  returned while its time to live has not run out, otherwise the body runs and its
  result, unless it raised, is stored for \<open>ttl\<close> seconds. The clock is read once per
  call: the request is taken to complete at the time of the call.
\<close>

record cache_entry =
  stored :: fetch_result
  expires_at :: int

type_synonym cache = "string option \<rightharpoonup> cache_entry"

definition get_from_cache :: "cache \<Rightarrow> int \<Rightarrow> string option \<Rightarrow> fetch_result option" where
  "get_from_cache c now key =
     (case c key of
        None \<Rightarrow> None
      | Some e \<Rightarrow> if now < expires_at e then Some (stored e) else None)"

definition fetch_and_parse_rate_data ::
  "float_of \<Rightarrow> settings \<Rightarrow> cache \<Rightarrow> int \<Rightarrow> string option \<Rightarrow> http_outcome \<Rightarrow>
   (fetch_error + fetch_result) \<times> cache" where
  "fetch_and_parse_rate_data float_of s c now url outcome =
     (case get_from_cache c now url of
        Some v \<Rightarrow> (Inr v, c)
      | None \<Rightarrow>
          (case fetch_body float_of (CURRENCY_NAMES s) outcome of
             Inl e \<Rightarrow> (Inl e, c)
           | Inr r \<Rightarrow> (Inr r, c(url \<mapsto> \<lparr> stored = r, expires_at = now + CACHE_TTL s \<rparr>))))"


section \<open>The cross-rate calculator\<close>

text \<open>
  What \<open>get_exchange_rate\<close> returns: the bare \<open>None\<close>, or a triple of the rate (or
  \<open>None\<close>), the cache flag and the next update time.
\<close>

datatype rate_result = PyNone | Triple "real option" "bool option" "int option"

text \<open>
  The lookup that the source writes out in each branch: by currency code, else by the
  display name.
\<close>

definition lookup_rate :: "(string \<times> real) list \<Rightarrow> string \<Rightarrow> string \<Rightarrow> real option" where
  "lookup_rate cur code name =
     (case map_of cur code of
        Some r \<Rightarrow> Some r
      | None \<Rightarrow> map_of cur name)"

text \<open>\<open>not name\<close> for the result of \<open>dict.get\<close>: true for \<open>None\<close> and for the empty string.\<close>

definition falsy :: "string option \<Rightarrow> bool" where
  "falsy n = (case n of None \<Rightarrow> True | Some t \<Rightarrow> t = [])"

text \<open>The value returned by the \<open>except Exception\<close> handler.\<close>

definition failure_triple :: "settings \<Rightarrow> int \<Rightarrow> rate_result" where
  "failure_triple s now = Triple None (Some False) (Some (now + CACHE_TTL s))"

text \<open>The branches of \<open>get_exchange_rate\<close> after the fetch has delivered its triple.\<close>

definition rate_of_data ::
  "settings \<Rightarrow> int \<Rightarrow> fetch_result \<Rightarrow> string \<Rightarrow> string \<Rightarrow> rate_result" where
  "rate_of_data s now r from_currency to_currency =
     (case r of (data, is_cached, next_update) \<Rightarrow>
      let cur = currencies data in
      if cur = [] then PyNone
      else
        let from_currency_name = map_of (CURRENCY_NAMES s) from_currency;
            to_currency_name = map_of (CURRENCY_NAMES s) to_currency
        in if falsy from_currency_name \<or> falsy to_currency_name then PyNone
           else if to_currency = ''CNY'' then
             (case lookup_rate cur from_currency (the from_currency_name) of
                None \<Rightarrow> PyNone
              | Some from_rate \<Rightarrow> Triple (Some (from_rate / 100)) is_cached next_update)
           else if from_currency = ''CNY'' then
             (case lookup_rate cur to_currency (the to_currency_name) of
                None \<Rightarrow> PyNone
              | Some to_rate \<Rightarrow>
                  (case py_truediv 100 to_rate of
                     None \<Rightarrow> failure_triple s now
                   | Some q \<Rightarrow> Triple (Some q) is_cached next_update))
           else
             (case lookup_rate cur from_currency (the from_currency_name) of
                None \<Rightarrow> PyNone
              | Some from_rate \<Rightarrow>
                  (case lookup_rate cur to_currency (the to_currency_name) of
                     None \<Rightarrow> PyNone
                   | Some to_rate \<Rightarrow>
                       (case py_truediv to_rate from_rate of
                          None \<Rightarrow> failure_triple s now
                        | Some q \<Rightarrow> Triple (Some q) is_cached next_update))))"

definition get_exchange_rate ::
  "float_of \<Rightarrow> settings \<Rightarrow> cache \<Rightarrow> int \<Rightarrow> http_outcome \<Rightarrow> string \<Rightarrow> string \<Rightarrow>
   rate_result \<times> cache" where
  "get_exchange_rate float_of s c now outcome from_currency to_currency =
     (case fetch_and_parse_rate_data float_of s c now (BOC_URL s) outcome of
        (Inl e, c') \<Rightarrow> (failure_triple s now, c')
      | (Inr r, c') \<Rightarrow> (rate_of_data s now r from_currency to_currency, c'))"


section \<open>Predicates of the statements, and sample inputs\<close>

text \<open>A result that carries no rate: the bare \<open>None\<close> or a triple whose rate is \<open>None\<close>.\<close>

definition no_rate :: "rate_result \<Rightarrow> bool" where
  "no_rate r = (case r of PyNone \<Rightarrow> True | Triple q _ _ \<Rightarrow> q = None)"


text \<open>The header row names the three columns that the parser requires.\<close>

definition required_columns :: "string list \<Rightarrow> bool" where
  "required_columns headers =
     (''Currency Name'' \<in> set headers \<and> ''Cash Selling Rate'' \<in> set headers
      \<and> ''Pub Time'' \<in> set headers)"

text \<open>
  The document lacks the structure the parser needs: no marked table, no row in it, or
  a header row without one of the required columns.
\<close>

definition structure_missing :: "soup \<Rightarrow> bool" where
  "structure_missing soup =
     (case find_table soup of
        None \<Rightarrow> True
      | Some t \<Rightarrow> (case trs t of
                    [] \<Rightarrow> True
                  | row0 # data_rows \<Rightarrow> \<not> required_columns (map strip (ths row0))))"

text \<open>The stripped text of the cell at a column index.\<close>

definition cell_text :: "int \<Rightarrow> html_row \<Rightarrow> string" where
  "cell_text i row = strip (tds row ! nat i)"

text \<open>A data row that the loop does not skip: enough cells and a currency name.\<close>

definition usable_row :: "int \<Rightarrow> int \<Rightarrow> html_row \<Rightarrow> bool" where
  "usable_row ci si row = (max ci si < int (length (tds row)) \<and> cell_text ci row \<noteq> [])"

text \<open>A usable row whose rate cell is a number.\<close>

definition valid_row :: "float_of \<Rightarrow> int \<Rightarrow> int \<Rightarrow> html_row \<Rightarrow> bool" where
  "valid_row float_of ci si row =
     (usable_row ci si row \<and> cell_text si row \<noteq> [] \<and> float_of (cell_text si row) \<noteq> None)"

text \<open>
  The assignments one row makes to the dictionary: under the currency code when the
  display name has one, then under the display name.
\<close>

definition row_entries ::
  "float_of \<Rightarrow> (string \<times> string) list \<Rightarrow> int \<Rightarrow> int \<Rightarrow> html_row \<Rightarrow> (string \<times> real) list" where
  "row_entries float_of rm ci si row =
     (case float_of (cell_text si row) of
        None \<Rightarrow> []
      | Some v \<Rightarrow> (case map_of rm (cell_text ci row) of
                    Some code \<Rightarrow> [(code, v)]
                  | None \<Rightarrow> []) @ [(cell_text ci row, v)])"

text \<open>A sequence of dictionary assignments \<open>m[k] = v\<close>, in order.\<close>

definition assign :: "(string \<times> real) list \<Rightarrow> (string \<times> real) list \<Rightarrow> (string \<times> real) list" where
  "assign m kvs = foldl (\<lambda>m kv. AList.update (fst kv) (snd kv) m) m kvs"

text \<open>A usable row that has a publication-time cell.\<close>

definition time_row :: "int \<Rightarrow> int \<Rightarrow> int \<Rightarrow> html_row \<Rightarrow> bool" where
  "time_row ci si ti row = (usable_row ci si row \<and> ti < int (length (tds row)))"

subsection \<open>Sample settings, cache and documents\<close>

definition example_settings :: "(string \<times> string) list \<Rightarrow> settings" where
  "example_settings names =
     \<lparr> APP_PORT = 8000, APP_WORKERS = 4, CACHE_TIMEOUT = 5, BOC_URL = Some ''http://boc/'',
       SUPPORTED_CURRENCIES = [''USD'', ''EUR'', ''CNY''], CURRENCY_NAMES = names \<rparr>"

definition example_names :: "(string \<times> string) list" where
  "example_names = [(''USD'', ''US Dollar''), (''EUR'', ''Euro''), (''CNY'', ''Yuan'')]"

text \<open>A cache that holds a table for the sample URL until second 600.\<close>

definition cached_table :: "(string \<times> real) list \<Rightarrow> cache" where
  "cached_table cur =
     [Some ''http://boc/'' \<mapsto>
        \<lparr> stored = (\<lparr> currencies = cur, last_updated = Some ''2025.05.02 20:58:58'' \<rparr>, None, None),
          expires_at = 600 \<rparr>]"

text \<open>Ten data rows, one of them with a rate cell that is not a number.\<close>

definition ten_rows :: soup where
  "ten_rows =
     [Table (Some ''#EAEAEA'')
        [Row [''Currency Name'', ''Cash Selling Rate'', ''Pub Time''] [],
         Row [] [''AUD'', ''468.1'', ''2025.05.02 20:58:58''],
         Row [] [''CAD'', ''527.35'', ''2025.05.02 20:58:58''],
         Row [] [''CHF'', ''882.71'', ''2025.05.02 20:58:58''],
         Row [] [''EUR'', ''824.88'', ''2025.05.02 20:58:58''],
         Row [] [''GBP'', ''n/a'', ''2025.05.02 20:58:58''],
         Row [] [''HKD'', ''93.87'', ''2025.05.02 20:58:58''],
         Row [] [''JPY'', ''5.0362'', ''2025.05.02 20:58:58''],
         Row [] [''NZD'', ''433.9'', ''2025.05.02 20:58:58''],
         Row [] [''SGD'', ''562.3'', ''2025.05.02 20:58:58''],
         Row [] [''USD'', ''727.67'', ''2025.05.02 20:58:58'']]]"

text \<open>A table without the rate column.\<close>

definition no_rate_column :: soup where
  "no_rate_column =
     [Table (Some ''#EAEAEA'')
        [Row [''Currency Name'', ''Buying Rate'', ''Pub Time''] [],
         Row [] [''USD'', ''720.5'', ''2025.05.02 20:58:58'']]]"

text \<open>The first data row has an empty publication-time cell, the second one a time.\<close>

definition late_time :: soup where
  "late_time =
     [Table (Some ''#EAEAEA'')
        [Row [''Currency Name'', ''Cash Selling Rate'', ''Pub Time''] [],
         Row [] [''USD'', ''727.67'', ''''],
         Row [] [''EUR'', ''824.88'', ''2025.05.02 20:58:58'']]]"

text \<open>A well-formed table whose only data row has no numeric rate.\<close>

definition no_valid_rows :: soup where
  "no_valid_rows =
     [Table (Some ''#EAEAEA'')
        [Row [''Currency Name'', ''Cash Selling Rate'', ''Pub Time''] [],
         Row [] [''USD'', ''-'', ''2025.05.02 20:58:58'']]]"

text \<open>A well-formed table with one valid row.\<close>

definition one_row :: soup where
  "one_row =
     [Table (Some ''#EAEAEA'')
        [Row [''Currency Name'', ''Cash Selling Rate'', ''Pub Time''] [],
         Row [] [''USD'', ''727.67'', ''2025.05.02 20:58:58'']]]"


section \<open>Auxiliary facts\<close>

lemmas example_defs = example_settings_def example_names_def cached_table_def
  get_exchange_rate_def fetch_and_parse_rate_data_def get_from_cache_def rate_of_data_def
  lookup_rate_def falsy_def py_truediv_def failure_triple_def CACHE_TTL_def getattr_int_def

lemmas doc_eval = parse_exchange_rate_data_def reverse_map_def header_index_def strip_def
  is_space_def process_row_def decimal_float_def is_digit_def digits_val_def digit_val_def
  Let_def

text \<open>
  \<open>Settings.__init__\<close> sets no attribute \<open>CACHE_TTL_MINUTES\<close>, so the time to live of the
  cache is the default of the \<open>getattr\<close>: ten minutes.
\<close>

lemma CACHE_TTL_fixed: "CACHE_TTL s = 600"
  by (simp add: CACHE_TTL_def getattr_int_def)

lemma py_int_Nil: "py_int [] = None"
  by (simp add: py_int_def int_strip_def)

lemma lookup_rate_Nil: "lookup_rate [] code name = None"
  by (simp add: lookup_rate_def)

lemma header_index_missing: "header_index headers h = - 1 \<longleftrightarrow> h \<notin> set headers"
  by (simp add: header_index_def)

text \<open>The parser returns the empty dictionary exactly on structural absence.\<close>

lemma parse_None_iff:
  "parse_exchange_rate_data float_of names soup = None \<longleftrightarrow> structure_missing soup"
  by (simp add: parse_exchange_rate_data_def structure_missing_def required_columns_def
                header_index_missing Let_def split: option.splits list.splits)

lemma parse_Some:
  assumes "find_table soup = Some t" "trs t = row0 # rows"
    and "required_columns (map strip (ths row0))"
  shows "parse_exchange_rate_data float_of names soup =
           Some \<lparr> currencies =
                     fst (foldl (process_row float_of (reverse_map names)
                                   (header_index (map strip (ths row0)) ''Currency Name'')
                                   (header_index (map strip (ths row0)) ''Cash Selling Rate'')
                                   (header_index (map strip (ths row0)) ''Pub Time''))
                                ([], None) rows),
                   last_updated =
                     snd (foldl (process_row float_of (reverse_map names)
                                   (header_index (map strip (ths row0)) ''Currency Name'')
                                   (header_index (map strip (ths row0)) ''Cash Selling Rate'')
                                   (header_index (map strip (ths row0)) ''Pub Time''))
                                ([], None) rows) \<rparr>"
  using assms
  by (simp add: parse_exchange_rate_data_def required_columns_def header_index_missing Let_def)

text \<open>The dictionary after one row, and after the whole loop.\<close>

lemma process_row_fst:
  "fst (process_row float_of rm ci si ti st row) =
     assign (fst st) (if valid_row float_of ci si row then row_entries float_of rm ci si row else [])"
  by (auto simp: process_row_def valid_row_def usable_row_def row_entries_def cell_text_def
                 assign_def Let_def split: option.splits)

lemma assign_append: "assign m (xs @ ys) = assign (assign m xs) ys"
  by (simp add: assign_def)

lemma foldl_process_row_fst:
  "fst (foldl (process_row float_of rm ci si ti) st rows) =
     assign (fst st)
       (concat (map (row_entries float_of rm ci si) (filter (valid_row float_of ci si) rows)))"
proof (induction rows arbitrary: st)
  case Nil
  show ?case by (simp add: assign_def)
next
  case (Cons row rows)
  show ?case
    by (simp add: Cons.IH process_row_fst assign_append) (simp add: assign_def)
qed

text \<open>The publication time after one row, and after the whole loop.\<close>

lemma process_row_snd:
  "snd (process_row float_of rm ci si ti st row) =
     (case snd st of
        Some p \<Rightarrow> Some p
      | None \<Rightarrow> if time_row ci si ti row then Some (cell_text ti row) else None)"
  by (auto simp: process_row_def time_row_def usable_row_def cell_text_def Let_def
           split: option.splits)

lemma foldl_process_row_snd:
  "snd (foldl (process_row float_of rm ci si ti) st rows) =
     (case snd st of
        Some p \<Rightarrow> Some p
      | None \<Rightarrow> map_option (cell_text ti) (List.find (time_row ci si ti) rows))"
proof (induction rows arbitrary: st)
  case Nil
  show ?case by (simp split: option.splits)
next
  case (Cons row rows)
  show ?case
    by (simp add: Cons.IH process_row_snd split: option.splits)
qed


section \<open>The cross-rate calculator\<close>

text \<open>
  Claim C1, as amended. When the fetch has delivered a table and both currency
  identifiers have a non-empty configured display name, \<open>get_exchange_rate\<close> computes:
  if the target is CNY, the looked-up rate of the source divided by 100; otherwise, if
  the source is CNY, 100 divided by the looked-up rate of the target; otherwise the
  looked-up rate of the target divided by that of the source (the divisor being
  non-zero). The metadata of the fetch is passed through. With the rate of USD at
  727.67, the rate from USD to CNY is 7.2767.
\<close>

theorem get_exchange_rate_formulas:
  assumes fetch: "fetch_and_parse_rate_data float_of s c now (BOC_URL s) outcome
                    = (Inr (data, is_cached, next_update), c')"
    and from_name: "map_of (CURRENCY_NAMES s) from_currency = Some fn" "fn \<noteq> []"
    and to_name: "map_of (CURRENCY_NAMES s) to_currency = Some tn" "tn \<noteq> []"
  shows "(to_currency = ''CNY'' \<longrightarrow>
            (\<forall>a. lookup_rate (currencies data) from_currency fn = Some a \<longrightarrow>
               get_exchange_rate float_of s c now outcome from_currency to_currency
                 = (Triple (Some (a / 100)) is_cached next_update, c')))
       \<and> (to_currency \<noteq> ''CNY'' \<and> from_currency = ''CNY'' \<longrightarrow>
            (\<forall>b. lookup_rate (currencies data) to_currency tn = Some b \<and> b \<noteq> 0 \<longrightarrow>
               get_exchange_rate float_of s c now outcome from_currency to_currency
                 = (Triple (Some (100 / b)) is_cached next_update, c')))
       \<and> (to_currency \<noteq> ''CNY'' \<and> from_currency \<noteq> ''CNY'' \<longrightarrow>
            (\<forall>a b. lookup_rate (currencies data) from_currency fn = Some a \<and> a \<noteq> 0 \<and>
                   lookup_rate (currencies data) to_currency tn = Some b \<longrightarrow>
               get_exchange_rate float_of s c now outcome from_currency to_currency
                 = (Triple (Some (b / a)) is_cached next_update, c')))"
  using assms
  by (auto simp: get_exchange_rate_def rate_of_data_def falsy_def py_truediv_def Let_def
                 lookup_rate_Nil)

theorem get_exchange_rate_formulas_witness:
  "fst (get_exchange_rate decimal_float (example_settings example_names)
          (cached_table [(''USD'', 727.67), (''Euro'', 824.88)]) 0 Timeout ''USD'' ''CNY'')
     = Triple (Some 7.2767) None None
   \<and> fst (get_exchange_rate decimal_float (example_settings example_names)
          (cached_table [(''USD'', 727.67), (''Euro'', 824.88)]) 0 Timeout ''CNY'' ''EUR'')
     = Triple (Some (100 / 824.88)) None None
   \<and> fst (get_exchange_rate decimal_float (example_settings example_names)
          (cached_table [(''USD'', 727.67), (''Euro'', 824.88)]) 0 Timeout ''USD'' ''EUR'')
     = Triple (Some (824.88 / 727.67)) None None"
proof -
  let ?s = "example_settings example_names"
  let ?cur = "[(''USD'', 727.67::real), (''Euro'', 824.88)]"
  let ?c = "cached_table ?cur"
  let ?d = "\<lparr> currencies = ?cur, last_updated = Some ''2025.05.02 20:58:58'' \<rparr>"
  have fetch: "fetch_and_parse_rate_data decimal_float ?s ?c 0 (BOC_URL ?s) Timeout
                 = (Inr (?d, None, None), ?c)"
    by (simp add: example_defs)
  have usd: "map_of (CURRENCY_NAMES ?s) ''USD'' = Some ''US Dollar''" "''US Dollar'' \<noteq> []"
    and eur: "map_of (CURRENCY_NAMES ?s) ''EUR'' = Some ''Euro''" "''Euro'' \<noteq> []"
    and cny: "map_of (CURRENCY_NAMES ?s) ''CNY'' = Some ''Yuan''" "''Yuan'' \<noteq> []"
    by (simp_all add: example_defs)
  have l1: "lookup_rate (currencies ?d) ''USD'' ''US Dollar'' = Some 727.67"
    and l2: "lookup_rate (currencies ?d) ''EUR'' ''Euro'' = Some 824.88"
    by (simp_all add: lookup_rate_def)
  note f1 = get_exchange_rate_formulas [OF fetch usd cny, THEN conjunct1, rule_format, OF _ l1]
  note f2 = get_exchange_rate_formulas [OF fetch cny eur, THEN conjunct2, THEN conjunct1,
              rule_format, OF _ conjI [OF l2]]
  note f3 = get_exchange_rate_formulas [OF fetch usd eur, THEN conjunct2, THEN conjunct2,
              rule_format, OF _ conjI [OF l1 conjI [OF _ l2]]]
  have "get_exchange_rate decimal_float ?s ?c 0 Timeout ''USD'' ''CNY''
          = (Triple (Some (727.67 / 100)) None None, ?c)" by (rule f1) simp
  moreover
  have "get_exchange_rate decimal_float ?s ?c 0 Timeout ''CNY'' ''EUR''
          = (Triple (Some (100 / 824.88)) None None, ?c)" by (rule f2) simp_all
  moreover
  have "get_exchange_rate decimal_float ?s ?c 0 Timeout ''USD'' ''EUR''
          = (Triple (Some (824.88 / 727.67)) None None, ?c)" by (rule f3) simp_all
  ultimately show ?thesis by simp
qed

text \<open>
  Claim C1 as stated fails: with no display name configured, the table that holds USD
  at 727.67 under its code yields \<open>None\<close> for USD to CNY, not 7.2767.
\<close>

theorem formulas_need_display_names_counterexample:
  "map_of [(''USD'', 727.67::real)] ''USD'' = Some 727.67 \<and>
   fst (get_exchange_rate decimal_float (example_settings []) (cached_table [(''USD'', 727.67)])
          0 Timeout ''USD'' ''CNY'') = PyNone"
  by (simp add: example_defs)






text \<open>
  Claim C8, as amended. For every currency code other than CNY that has a non-empty
  configured display name and resolves to a finite, non-zero rate, the rate from the
  code to itself is 1.
\<close>

theorem identity_rate:
  assumes fetch: "fetch_and_parse_rate_data float_of s c now (BOC_URL s) outcome
                    = (Inr (data, is_cached, next_update), c')"
    and name: "map_of (CURRENCY_NAMES s) x = Some n" "n \<noteq> []"
    and "x \<noteq> ''CNY''"
    and "lookup_rate (currencies data) x n = Some r" "r \<noteq> 0"
  shows "get_exchange_rate float_of s c now outcome x x
           = (Triple (Some 1) is_cached next_update, c')"
  using assms
  by (auto simp: get_exchange_rate_def rate_of_data_def falsy_def py_truediv_def Let_def
                 lookup_rate_Nil)

theorem identity_rate_witness:
  "get_exchange_rate decimal_float (example_settings example_names)
     (cached_table [(''USD'', 727.67)]) 0 Timeout ''USD'' ''USD''
   = (Triple (Some 1) None None, cached_table [(''USD'', 727.67)])"
proof -
  let ?s = "example_settings example_names"
  let ?c = "cached_table [(''USD'', 727.67)]"
  let ?d = "\<lparr> currencies = [(''USD'', 727.67::real)], last_updated = Some ''2025.05.02 20:58:58'' \<rparr>"
  have fetch: "fetch_and_parse_rate_data decimal_float ?s ?c 0 (BOC_URL ?s) Timeout
                 = (Inr (?d, None, None), ?c)"
    by (simp add: example_defs)
  have usd: "map_of (CURRENCY_NAMES ?s) ''USD'' = Some ''US Dollar''" "''US Dollar'' \<noteq> []"
    by (simp_all add: example_defs)
  show ?thesis
    by (rule identity_rate [OF fetch usd, where r = "727.67"]) (simp_all add: lookup_rate_def)
qed

text \<open>
  Claim C8 as stated fails on three kinds of resolvable codes. CNY resolves in a table
  that lists it at 50, and the rate from CNY to CNY is 0.5. USD resolves in a table that
  lists it at 0, and the rate from USD to USD is the failure triple of the caught
  division error. USD resolves by its code in a table that lists it at 727.67, and with
  no display name configured for it the rate from USD to USD is \<open>None\<close>.
\<close>

theorem identity_rate_counterexample:
  "lookup_rate [(''CNY'', 50)] ''CNY'' ''Yuan'' = Some 50
   \<and> fst (get_exchange_rate decimal_float (example_settings example_names)
            (cached_table [(''CNY'', 50)]) 0 Timeout ''CNY'' ''CNY'')
       = Triple (Some 0.5) None None
   \<and> lookup_rate [(''USD'', 0)] ''USD'' ''US Dollar'' = Some 0
   \<and> fst (get_exchange_rate decimal_float (example_settings example_names)
            (cached_table [(''USD'', 0)]) 0 Timeout ''USD'' ''USD'')
       = Triple None (Some False) (Some 600)
   \<and> map_of [(''USD'', 727.67::real)] ''USD'' = Some 727.67
   \<and> fst (get_exchange_rate decimal_float (example_settings [])
            (cached_table [(''USD'', 727.67)]) 0 Timeout ''USD'' ''USD'')
       = PyNone"
  by (simp add: example_defs)

text \<open>
  Claim C10. Whenever the configured mapping from codes to display names lacks an entry
  for the source or for the target, \<open>get_exchange_rate\<close> returns no rate: the bare
  \<open>None\<close> when the fetch delivered a table (even one that holds the rate under the
  currency code), the failure triple when the fetch raised.
\<close>

theorem get_exchange_rate_requires_display_names:
  assumes "map_of (CURRENCY_NAMES s) from_currency = None
           \<or> map_of (CURRENCY_NAMES s) to_currency = None"
  shows "get_exchange_rate float_of s c now outcome from_currency to_currency =
           (case fetch_and_parse_rate_data float_of s c now (BOC_URL s) outcome of
              (Inl e, c') \<Rightarrow> (failure_triple s now, c')
            | (Inr r, c') \<Rightarrow> (PyNone, c'))
         \<and> no_rate (fst (get_exchange_rate float_of s c now outcome from_currency to_currency))"
  using assms
  by (auto simp: get_exchange_rate_def rate_of_data_def falsy_def Let_def no_rate_def
                 failure_triple_def split: prod.splits sum.splits)

theorem get_exchange_rate_requires_display_names_witness:
  "map_of [(''USD'', 727.67::real), (''EUR'', 824.88)] ''USD'' = Some 727.67
   \<and> map_of [(''USD'', 727.67::real), (''EUR'', 824.88)] ''EUR'' = Some 824.88
   \<and> get_exchange_rate decimal_float (example_settings [(''EUR'', ''Euro'')])
        (cached_table [(''USD'', 727.67), (''EUR'', 824.88)]) 0 Timeout ''USD'' ''EUR''
      = (PyNone, cached_table [(''USD'', 727.67), (''EUR'', 824.88)])"
proof -
  let ?s = "example_settings [(''EUR'', ''Euro'')]"
  have "map_of (CURRENCY_NAMES ?s) ''USD'' = None \<or> map_of (CURRENCY_NAMES ?s) ''EUR'' = None"
    by (simp add: example_settings_def)
  from get_exchange_rate_requires_display_names [OF this, THEN conjunct1]
  show ?thesis
    by (simp add: example_settings_def cached_table_def fetch_and_parse_rate_data_def
                  get_from_cache_def)
qed


section \<open>The parser\<close>

text \<open>
  Claim C5. A document that lacks the structure (no marked table, no rows, or a header
  without one of the three required columns) makes the parser return the empty
  dictionary, which the fetch raises as an error. When the marked table has the three
  header columns, parsing succeeds, and the dictionary of rates is exactly what the
  valid rows assign, in order: rows whose rate cell is not a number are skipped, and
  every other valid row is parsed. Ten rows of which one has a malformed rate cell give
  nine entries.
\<close>

theorem parser_tolerance:
  "(structure_missing soup \<longrightarrow>
      parse_exchange_rate_data float_of names soup = None
      \<and> fetch_body float_of names (Response soup) = Inl Fetch_or_parse_error)
   \<and> (\<forall>t row0 rows.
        find_table soup = Some t \<and> trs t = row0 # rows
        \<and> required_columns (map strip (ths row0)) \<longrightarrow>
        (\<exists>d. parse_exchange_rate_data float_of names soup = Some d
           \<and> currencies d =
               assign [] (concat (map (row_entries float_of (reverse_map names)
                              (header_index (map strip (ths row0)) ''Currency Name'')
                              (header_index (map strip (ths row0)) ''Cash Selling Rate''))
                            (filter (valid_row float_of
                                      (header_index (map strip (ths row0)) ''Currency Name'')
                                      (header_index (map strip (ths row0)) ''Cash Selling Rate''))
                                    rows)))))"
proof (intro conjI impI allI)
  assume "structure_missing soup"
  then show "parse_exchange_rate_data float_of names soup = None"
    by (simp add: parse_None_iff)
  then show "fetch_body float_of names (Response soup) = Inl Fetch_or_parse_error"
    by (simp add: fetch_body_def)
next
  fix t row0 rows
  assume "find_table soup = Some t \<and> trs t = row0 # rows
          \<and> required_columns (map strip (ths row0))"
  then show "\<exists>d. parse_exchange_rate_data float_of names soup = Some d
           \<and> currencies d =
               assign [] (concat (map (row_entries float_of (reverse_map names)
                              (header_index (map strip (ths row0)) ''Currency Name'')
                              (header_index (map strip (ths row0)) ''Cash Selling Rate''))
                            (filter (valid_row float_of
                                      (header_index (map strip (ths row0)) ''Currency Name'')
                                      (header_index (map strip (ths row0)) ''Cash Selling Rate''))
                                    rows)))"
    by (simp add: parse_Some foldl_process_row_fst)
qed

theorem parser_tolerance_witness:
  "map_option (length \<circ> currencies) (parse_exchange_rate_data decimal_float [] ten_rows) = Some 9
   \<and> parse_exchange_rate_data decimal_float [] no_rate_column = None
   \<and> fetch_body decimal_float [] (Response no_rate_column) = Inl Fetch_or_parse_error"
proof -
  let ?row0 = "Row [''Currency Name'', ''Cash Selling Rate'', ''Pub Time''] []"
  let ?t = "hd ten_rows"
  have t: "find_table ten_rows = Some ?t \<and> trs ?t = ?row0 # tl (trs ?t)
           \<and> required_columns (map strip (ths ?row0))"
    by (simp add: ten_rows_def required_columns_def strip_def is_space_def)
  from parser_tolerance [of ten_rows decimal_float "[]", THEN conjunct2, rule_format, OF t]
  obtain d where d: "parse_exchange_rate_data decimal_float [] ten_rows = Some d"
    and cur: "currencies d =
               assign [] (concat (map (row_entries decimal_float (reverse_map [])
                              (header_index (map strip (ths ?row0)) ''Currency Name'')
                              (header_index (map strip (ths ?row0)) ''Cash Selling Rate''))
                            (filter (valid_row decimal_float
                                      (header_index (map strip (ths ?row0)) ''Currency Name'')
                                      (header_index (map strip (ths ?row0)) ''Cash Selling Rate''))
                                    (tl (trs ?t)))))"
    by blast
  have "length (currencies d) = 9"
    unfolding cur
    by (simp add: ten_rows_def assign_def row_entries_def valid_row_def usable_row_def
                  cell_text_def doc_eval)
  with d have first: "map_option (length \<circ> currencies)
                        (parse_exchange_rate_data decimal_float [] ten_rows) = Some 9"
    by simp
  have m: "structure_missing no_rate_column"
    by (simp add: structure_missing_def no_rate_column_def required_columns_def strip_def
                  is_space_def)
  from parser_tolerance [of no_rate_column decimal_float "[]", THEN conjunct1, rule_format, OF m]
    first
  show ?thesis by simp
qed

text \<open>
  Claim C9, as amended. The publication time of the parsed table is the stripped
  publication-time cell of the first data row that is not skipped (enough cells for the
  name and rate columns, a non-empty currency name) and has such a cell, whether or not
  that text is empty; the cells of all later rows are ignored. It is \<open>None\<close> when no
  row qualifies.
\<close>

theorem published_time_of_first_usable_row:
  assumes "find_table soup = Some t" "trs t = row0 # rows"
    and "required_columns (map strip (ths row0))"
  shows "\<exists>d. parse_exchange_rate_data float_of names soup = Some d
           \<and> last_updated d =
               map_option (cell_text (header_index (map strip (ths row0)) ''Pub Time''))
                 (List.find (time_row (header_index (map strip (ths row0)) ''Currency Name'')
                                      (header_index (map strip (ths row0)) ''Cash Selling Rate'')
                                      (header_index (map strip (ths row0)) ''Pub Time''))
                            rows)"
  using assms by (simp add: parse_Some foldl_process_row_snd)

theorem published_time_of_first_usable_row_witness:
  "map_option last_updated (parse_exchange_rate_data decimal_float [] ten_rows)
     = Some (Some ''2025.05.02 20:58:58'')"
proof -
  let ?row0 = "Row [''Currency Name'', ''Cash Selling Rate'', ''Pub Time''] []"
  let ?t = "hd ten_rows"
  have t: "find_table ten_rows = Some ?t" "trs ?t = ?row0 # tl (trs ?t)"
    "required_columns (map strip (ths ?row0))"
    by (simp_all add: ten_rows_def required_columns_def strip_def is_space_def)
  from published_time_of_first_usable_row [OF t, of decimal_float "[]"]
  show ?thesis
    by (auto simp: ten_rows_def time_row_def usable_row_def cell_text_def header_index_def
                   strip_def is_space_def)
qed

text \<open>
  Claim C9 as stated fails: the first data row has an empty publication-time cell and
  the second one a time; the table's publication time is the empty string.
\<close>

theorem empty_first_time_cell_counterexample:
  "map_option last_updated (parse_exchange_rate_data decimal_float [] late_time) = Some (Some [])"
  by (simp add: late_time_def doc_eval)


section \<open>The cache\<close>

text \<open>
  Claim C2, as amended. On a cache miss, a document that lacks the structure makes the
  fetch fail and leaves the cache as it was; any other document is parsed, returned and
  stored as parsed, also when no row gave a rate and the rates mapping is empty. A
  failed fetch never changes the cache.
\<close>

theorem fetch_failure_is_not_cached:
  assumes miss: "get_from_cache c now url = None"
  shows "(structure_missing soup \<longrightarrow>
            fetch_and_parse_rate_data float_of s c now url (Response soup)
              = (Inl Fetch_or_parse_error, c))
       \<and> (\<not> structure_missing soup \<longrightarrow>
            (\<exists>d. parse_exchange_rate_data float_of (CURRENCY_NAMES s) soup = Some d
               \<and> fetch_and_parse_rate_data float_of s c now url (Response soup)
                  = (Inr (d, None, None),
                     c(url \<mapsto> \<lparr> stored = (d, None, None), expires_at = now + CACHE_TTL s \<rparr>))))
       \<and> (\<forall>e. fst (fetch_and_parse_rate_data float_of s c now url outcome) = Inl e \<longrightarrow>
              snd (fetch_and_parse_rate_data float_of s c now url outcome) = c)"
proof (intro conjI impI allI)
  assume "structure_missing soup"
  then have "parse_exchange_rate_data float_of (CURRENCY_NAMES s) soup = None"
    by (simp add: parse_None_iff)
  with miss show "fetch_and_parse_rate_data float_of s c now url (Response soup)
                    = (Inl Fetch_or_parse_error, c)"
    by (simp add: fetch_and_parse_rate_data_def fetch_body_def)
next
  assume "\<not> structure_missing soup"
  then obtain d where d: "parse_exchange_rate_data float_of (CURRENCY_NAMES s) soup = Some d"
    using parse_None_iff [of float_of "CURRENCY_NAMES s" soup] by auto
  with miss show "\<exists>d. parse_exchange_rate_data float_of (CURRENCY_NAMES s) soup = Some d
               \<and> fetch_and_parse_rate_data float_of s c now url (Response soup)
                  = (Inr (d, None, None),
                     c(url \<mapsto> \<lparr> stored = (d, None, None), expires_at = now + CACHE_TTL s \<rparr>))"
    by (simp add: fetch_and_parse_rate_data_def fetch_body_def)
next
  fix e
  assume "fst (fetch_and_parse_rate_data float_of s c now url outcome) = Inl e"
  then show "snd (fetch_and_parse_rate_data float_of s c now url outcome) = c"
    by (simp add: fetch_and_parse_rate_data_def split: option.splits sum.splits)
qed

theorem fetch_failure_is_not_cached_witness:
  "fetch_and_parse_rate_data decimal_float (example_settings []) Map.empty 0
     (Some ''http://boc/'') (Response no_rate_column) = (Inl Fetch_or_parse_error, Map.empty)
   \<and> fetch_and_parse_rate_data decimal_float (example_settings []) Map.empty 0
     (Some ''http://boc/'') (Response one_row)
     = (Inr (\<lparr> currencies = [(''USD'', 727.67)], last_updated = Some ''2025.05.02 20:58:58'' \<rparr>,
             None, None),
        [Some ''http://boc/'' \<mapsto>
           \<lparr> stored = (\<lparr> currencies = [(''USD'', 727.67)],
                         last_updated = Some ''2025.05.02 20:58:58'' \<rparr>, None, None),
             expires_at = 600 \<rparr>])
   \<and> snd (fetch_and_parse_rate_data decimal_float (example_settings []) Map.empty 0
            (Some ''http://boc/'') Timeout) = Map.empty"
proof -
  let ?s = "example_settings []"
  let ?u = "Some ''http://boc/''"
  have miss: "get_from_cache Map.empty 0 ?u = None"
    by (simp add: get_from_cache_def)
  note inst = fetch_failure_is_not_cached
                 [where float_of = decimal_float and s = "?s", OF miss]
  have m: "structure_missing no_rate_column"
    by (simp add: structure_missing_def no_rate_column_def required_columns_def strip_def
                  is_space_def)
  have p: "\<not> structure_missing one_row"
    by (simp add: structure_missing_def one_row_def required_columns_def strip_def
                  is_space_def)
  have d: "parse_exchange_rate_data decimal_float (CURRENCY_NAMES ?s) one_row
             = Some \<lparr> currencies = [(''USD'', 727.67)],
                      last_updated = Some ''2025.05.02 20:58:58'' \<rparr>"
    by (simp add: example_settings_def one_row_def doc_eval)
  have t: "fst (fetch_and_parse_rate_data decimal_float ?s Map.empty 0 ?u Timeout) = Inl Timed_out"
    by (simp add: fetch_and_parse_rate_data_def get_from_cache_def fetch_body_def)
  from inst [THEN conjunct1, rule_format, OF m]
       inst [where soup = one_row, THEN conjunct2, THEN conjunct1, rule_format, OF p] d
       inst [where outcome = Timeout, THEN conjunct2, THEN conjunct2, rule_format, OF t]
  show ?thesis by (simp add: CACHE_TTL_fixed)
qed

text \<open>
  Claim C2 as stated fails: a well-formed table from which no row parses is returned
  and stored with an empty rates mapping.
\<close>

theorem empty_table_is_cached_counterexample:
  "fetch_and_parse_rate_data decimal_float (example_settings []) Map.empty 0
     (Some ''http://boc/'') (Response no_valid_rows)
   = (Inr (\<lparr> currencies = [], last_updated = Some ''2025.05.02 20:58:58'' \<rparr>, None, None),
      [Some ''http://boc/'' \<mapsto>
         \<lparr> stored = (\<lparr> currencies = [], last_updated = Some ''2025.05.02 20:58:58'' \<rparr>,
                     None, None),
           expires_at = 600 \<rparr>])"
  by (simp add: fetch_and_parse_rate_data_def get_from_cache_def fetch_body_def
                example_settings_def no_valid_rows_def CACHE_TTL_fixed doc_eval)

text \<open>
  Claim C3 asks for the triple (table, false, now + TTL) on a fresh fetch and
  (table, true, expiry) on a cache hit. The function returns the table with \<open>None\<close> for
  both metadata fields on a fresh fetch at time 0, and the stored triple, again with
  \<open>None\<close> for both, on the hit at time 599.
\<close>

theorem fetch_metadata_is_None:
  "fetch_and_parse_rate_data decimal_float (example_settings []) Map.empty 0
     (Some ''http://boc/'') (Response one_row)
     = (Inr (\<lparr> currencies = [(''USD'', 727.67)], last_updated = Some ''2025.05.02 20:58:58'' \<rparr>,
             None, None),
        [Some ''http://boc/'' \<mapsto>
           \<lparr> stored = (\<lparr> currencies = [(''USD'', 727.67)],
                         last_updated = Some ''2025.05.02 20:58:58'' \<rparr>, None, None),
             expires_at = 600 \<rparr>])
   \<and> fst (fetch_and_parse_rate_data decimal_float (example_settings [])
            [Some ''http://boc/'' \<mapsto>
               \<lparr> stored = (\<lparr> currencies = [(''USD'', 727.67)],
                             last_updated = Some ''2025.05.02 20:58:58'' \<rparr>, None, None),
                 expires_at = 600 \<rparr>]
            599 (Some ''http://boc/'') Timeout)
     = Inr (\<lparr> currencies = [(''USD'', 727.67)], last_updated = Some ''2025.05.02 20:58:58'' \<rparr>,
            None, None)"
  by (simp add: fetch_and_parse_rate_data_def get_from_cache_def fetch_body_def
                example_settings_def one_row_def CACHE_TTL_fixed doc_eval)


section \<open>The configured cache timeout\<close>

text \<open>
  Claim C7, as amended. A time to live that is zero or negative is accepted when the
  settings are built: for every environment in which \<open>APP_PORT\<close> is set to the text of an
  integer, \<open>APP_WORKERS\<close> is unset or the text of an integer, and \<open>CACHE_TIMEOUT\<close> is the
  text of an integer n, positive or not, \<open>Settings.__init__\<close> succeeds and records n.
\<close>

theorem Settings_accepts_any_integer_timeout:
  assumes "env ''APP_PORT'' = Some p" "py_int p = Some port"
    and "py_int (env_get env ''APP_WORKERS'' ''4'') = Some workers"
    and "env ''CACHE_TIMEOUT'' = Some t" "py_int t = Some n"
  shows "\<exists>st. Settings_init env = Inr st \<and> CACHE_TIMEOUT st = n"
proof -
  from assms(5) have "t \<noteq> []" by (auto simp: py_int_Nil)
  with assms show ?thesis
    by (simp add: Settings_init_def env_get_def)
qed

theorem Settings_accepts_any_integer_timeout_witness:
  "map_sum id CACHE_TIMEOUT
     (Settings_init [''APP_PORT'' \<mapsto> ''8000'', ''CACHE_TIMEOUT'' \<mapsto> ''0'']) = Inr 0"
proof -
  let ?env = "[''APP_PORT'' \<mapsto> ''8000'', ''CACHE_TIMEOUT'' \<mapsto> ''0'']"
  have "?env ''APP_PORT'' = Some ''8000''" "py_int ''8000'' = Some 8000"
    "py_int (env_get ?env ''APP_WORKERS'' ''4'') = Some 4"
    "?env ''CACHE_TIMEOUT'' = Some ''0''" "py_int ''0'' = Some 0"
    by (simp_all add: env_get_def py_int_def int_strip_def is_int_space_def is_digit_def
                      digits_val_def digit_val_def)
  from Settings_accepts_any_integer_timeout [OF this]
  obtain st where "Settings_init ?env = Inr st" "CACHE_TIMEOUT st = 0"
    by blast
  then show ?thesis by simp
qed

text \<open>
  Claim C7 as stated fails: with \<open>CACHE_TIMEOUT\<close> set to -5 the settings are built
  without error and hold -5.
\<close>

theorem nonpositive_timeout_accepted_counterexample:
  "Settings_init [''APP_PORT'' \<mapsto> ''8000'', ''CACHE_TIMEOUT'' \<mapsto> ''-5'']
     = Inr \<lparr> APP_PORT = 8000, APP_WORKERS = 4, CACHE_TIMEOUT = - 5, BOC_URL = None,
             SUPPORTED_CURRENCIES = [], CURRENCY_NAMES = [] \<rparr>"
  by (simp add: Settings_init_def env_get_def py_int_def int_strip_def is_int_space_def
                is_digit_def digits_val_def digit_val_def parse_list_def parse_dict_def)

end
